theory Spec2Isabelle
  imports Complex_Main
begin

section \<open>Numbers\<close>

text \<open>
  The TypeScript sources compute on values of type \<open>number\<close>. They are modelled as exact
  rationals: \<open>0.9\<close> is \<open>9/10\<close>, \<open>2711.55\<close> is \<open>271155/100\<close>. \<open>NaN\<close> and the infinities
  have no counterpart; where the source tests for \<open>NaN\<close> (the result of \<open>parseFloat\<close>)
  the model uses \<open>None\<close>.
\<close>

type_synonym number = rat

section \<open>ContributionSlider.tsx\<close>

text \<open>
  The properties of the component. \<open>maxContribution\<close> and \<open>catchUpEligible\<close> are optional
  with the defaults \<open>23500\<close> and \<open>false\<close>.
\<close>

record ContributionSliderProps =
  annualSalary :: number
  currentPercent :: number
  ytdContribution :: number
  remainingPayPeriods :: number
  recommendedPercent :: number
  maxContribution :: "number option"
  catchUpEligible :: "bool option"

definition maxContribution_default :: "ContributionSliderProps \<Rightarrow> number" where
  "maxContribution_default p = (case maxContribution p of None \<Rightarrow> 23500 | Some m \<Rightarrow> m)"

definition catchUpEligible_default :: "ContributionSliderProps \<Rightarrow> bool" where
  "catchUpEligible_default p = (case catchUpEligible p of None \<Rightarrow> False | Some b \<Rightarrow> b)"

definition effectiveMax :: "ContributionSliderProps \<Rightarrow> number" where
  "effectiveMax p =
     (if catchUpEligible_default p then maxContribution_default p + 7500
      else maxContribution_default p)"

text \<open>One element of the array that \<open>calculateProjection\<close> builds for the chart.\<close>

record ProjectionPoint =
  payPeriod :: int
  contribution :: number
  max_pt :: number

text \<open>
  The loop \<open>for (let i = 0; i <= remainingPayPeriods; i++)\<close> with its two mutable
  variables \<open>projected\<close> and \<open>data\<close>. The bound \<open>n\<close> is any number; the counter is an
  integer.
\<close>

function calculateProjection_loop ::
  "number \<Rightarrow> number \<Rightarrow> number \<Rightarrow> int \<Rightarrow> number \<Rightarrow> ProjectionPoint list \<Rightarrow> ProjectionPoint list"
where
  "calculateProjection_loop n eMax perPayPeriodContribution i projected data =
     (if of_int i \<le> n
      then calculateProjection_loop n eMax perPayPeriodContribution (i + 1)
             (projected + perPayPeriodContribution)
             (data @ [\<lparr>payPeriod = i, contribution = min projected eMax, max_pt = eMax\<rparr>])
      else data)"
  by pat_completeness auto
termination
  by (relation "measure (\<lambda>(n, eMax, c, i, projected, data). nat (\<lfloor>n\<rfloor> + 1 - i))")
     (auto simp: le_floor_iff)

declare calculateProjection_loop.simps [simp del]

definition calculateProjection :: "ContributionSliderProps \<Rightarrow> number \<Rightarrow> ProjectionPoint list" where
  "calculateProjection p contributionPercent =
     (let perPayPeriodSalary = annualSalary p / 26;
          perPayPeriodContribution = (perPayPeriodSalary * contributionPercent) / 100
      in calculateProjection_loop (remainingPayPeriods p) (effectiveMax p)
           perPayPeriodContribution 0 (ytdContribution p) [])"

text \<open>\<open>percent\<close> is the component's state, initially \<open>currentPercent\<close>, set by the slider.\<close>

definition projectedYearEnd :: "ContributionSliderProps \<Rightarrow> number \<Rightarrow> number" where
  "projectedYearEnd p percent =
     min (ytdContribution p + (annualSalary p / 26) * (percent / 100) * remainingPayPeriods p)
         (effectiveMax p)"

definition taxSavings :: "ContributionSliderProps \<Rightarrow> number \<Rightarrow> number" where
  "taxSavings p percent = projectedYearEnd p percent * (32 / 100)"

section \<open>app/401k/page.tsx\<close>

record FormData401k =
  annual_salary :: number
  current_contribution_percent :: number
  ytd_contribution :: number
  remaining_pay_periods :: number
  age :: number

text \<open>The initial state of the form.\<close>

definition formData_initial :: FormData401k where
  "formData_initial =
     \<lparr>annual_salary = 450000, current_contribution_percent = 6,
      ytd_contribution = 271155 / 100, remaining_pay_periods = 22, age = 35\<rparr>"

text \<open>\<open>Optimizer401kResult\<close> of the API client; the first field repeats a name of the form.\<close>

record Optimizer401kResult =
  current_contribution_percent_res :: number
  recommended_percent :: number
  remaining_contribution_room :: number
  max_contribution :: number
  projected_year_end_contribution :: number
  tax_savings :: number

definition mockOptimization :: "FormData401k \<Rightarrow> Optimizer401kResult" where
  "mockOptimization formData =
     \<lparr>current_contribution_percent_res = current_contribution_percent formData,
      recommended_percent = 135 / 10,
      remaining_contribution_room = 2078845 / 100,
      max_contribution = 23500,
      projected_year_end_contribution = 23500,
      tax_savings = 7520\<rparr>"

text \<open>
  \<open>optimization || mockOptimization\<close>: the answer of the optimizer endpoint when the
  mutation has run, the mock otherwise.
\<close>

definition result :: "Optimizer401kResult option \<Rightarrow> FormData401k \<Rightarrow> Optimizer401kResult" where
  "result optimization formData =
     (case optimization of Some r \<Rightarrow> r | None \<Rightarrow> mockOptimization formData)"

definition catchUpEligible_page :: "FormData401k \<Rightarrow> bool" where
  "catchUpEligible_page formData = (age formData \<ge> 50)"

definition effectiveMax_page :: "FormData401k \<Rightarrow> number" where
  "effectiveMax_page formData = (if catchUpEligible_page formData then 31000 else 23500)"

text \<open>The properties the page hands to \<open>ContributionSlider\<close>.\<close>

definition sliderProps :: "Optimizer401kResult option \<Rightarrow> FormData401k \<Rightarrow> ContributionSliderProps" where
  "sliderProps optimization formData =
     \<lparr>annualSalary = annual_salary formData,
      currentPercent = current_contribution_percent formData,
      ytdContribution = ytd_contribution formData,
      remainingPayPeriods = remaining_pay_periods formData,
      recommendedPercent = recommended_percent (result optimization formData),
      maxContribution = Some 23500,
      catchUpEligible = Some (catchUpEligible_page formData)\<rparr>"

section \<open>app/quarterly/page.tsx\<close>

text \<open>\<open>QuarterlyEstimate\<close> of the API client; \<open>paid_amount\<close> is optional.\<close>

record QuarterlyEstimate =
  quarter :: number
  due_date :: string
  federal_amount :: number
  california_amount :: number
  oklahoma_amount :: number
  total_amount :: number
  paid :: bool
  paid_amount :: "number option"

definition mockEstimates :: "QuarterlyEstimate list" where
  "mockEstimates =
     [\<lparr>quarter = 1, due_date = ''2025-04-15'', federal_amount = 12500,
       california_amount = 5300, oklahoma_amount = 1100, total_amount = 18900,
       paid = True, paid_amount = Some 18900\<rparr>,
      \<lparr>quarter = 2, due_date = ''2025-06-15'', federal_amount = 12500,
       california_amount = 5300, oklahoma_amount = 1100, total_amount = 18900,
       paid = False, paid_amount = None\<rparr>,
      \<lparr>quarter = 3, due_date = ''2025-09-15'', federal_amount = 12500,
       california_amount = 5300, oklahoma_amount = 1100, total_amount = 18900,
       paid = False, paid_amount = None\<rparr>,
      \<lparr>quarter = 4, due_date = ''2026-01-15'', federal_amount = 12500,
       california_amount = 5300, oklahoma_amount = 1100, total_amount = 18900,
       paid = False, paid_amount = None\<rparr>]"

text \<open>\<open>estimates || mockEstimates\<close>: the estimates of the endpoint once loaded.\<close>

definition displayEstimates :: "QuarterlyEstimate list option \<Rightarrow> QuarterlyEstimate list" where
  "displayEstimates estimates = (case estimates of Some es \<Rightarrow> es | None \<Rightarrow> mockEstimates)"

text \<open>\<open>reduce((sum, e) => sum + e.total_amount, 0)\<close> is a left fold.\<close>

definition totalAnnual :: "QuarterlyEstimate list \<Rightarrow> number" where
  "totalAnnual es = foldl (\<lambda>sum e. sum + total_amount e) 0 es"

definition totalPaid :: "QuarterlyEstimate list \<Rightarrow> number" where
  "totalPaid es =
     foldl (\<lambda>sum e. sum + (case paid_amount e of None \<Rightarrow> 0 | Some a \<Rightarrow> a)) 0
       (filter paid es)"

definition totalRemaining :: "QuarterlyEstimate list \<Rightarrow> number" where
  "totalRemaining es = totalAnnual es - totalPaid es"

text \<open>
  The two figures of the card "Safe Harbor Information", written inline in the page:
  \<open>165000 * 1.1\<close> under "110% Prior Year Safe Harbor" and \<open>totalAnnual * 0.9 * 4\<close> under
  "90% Current Year Safe Harbor".
\<close>

definition safeHarborPriorYear :: number where
  "safeHarborPriorYear = 165000 * (11 / 10)"

definition safeHarborCurrentYear :: "QuarterlyEstimate list \<Rightarrow> number" where
  "safeHarborCurrentYear es = totalAnnual es * (9 / 10) * 4"

section \<open>QuarterlyCalendar\<close>

text \<open>
  The state of the component: the quarter whose payment is being entered and the text of
  the amount field. \<open>onMarkPaid_calls\<close> records the calls of the callback \<open>onMarkPaid\<close>,
  which the page forwards to the mark-paid request of the API client.
\<close>

record CalendarState =
  editingQuarter :: "number option"
  paymentAmount :: string
  onMarkPaid_calls :: "(number \<times> number) list"

text \<open>
  \<open>handleMarkPaid\<close>. \<open>parseFloat\<close> is the JavaScript built-in, taken as a parameter; it
  answers \<open>None\<close> for \<open>NaN\<close>.
\<close>

definition handleMarkPaid ::
  "(string \<Rightarrow> number option) \<Rightarrow> number \<Rightarrow> CalendarState \<Rightarrow> CalendarState" where
  "handleMarkPaid parseFloat q st =
     (case parseFloat (paymentAmount st) of
        None \<Rightarrow> st
      | Some amount \<Rightarrow>
          if amount > 0
          then st\<lparr>onMarkPaid_calls := onMarkPaid_calls st @ [(q, amount)],
                  editingQuarter := None,
                  paymentAmount := ''''\<rparr>
          else st)"

text \<open>The values of \<open>parseFloat\<close> on the texts used below.\<close>

definition parseFloat_table :: "string \<Rightarrow> number option" where
  "parseFloat_table = map_of [(''18900'', 18900), (''0'', 0), (''-5'', - 5)]"

definition editing :: "number \<Rightarrow> string \<Rightarrow> CalendarState" where
  "editing q txt = \<lparr>editingQuarter = Some q, paymentAmount = txt, onMarkPaid_calls = []\<rparr>"

section \<open>Dashboard and TaxProjectionChart\<close>

text \<open>\<open>TaxProjection\<close> of the API client.\<close>

record TaxProjection =
  gross_income :: number
  federal_tax :: number
  california_tax :: number
  oklahoma_tax :: number
  fica_tax :: number
  total_tax :: number
  effective_rate :: number
  withheld_ytd :: number
  projected_liability :: number
  refund_or_owed :: number

definition mockProjection :: TaxProjection where
  "mockProjection =
     \<lparr>gross_income = 450000, federal_tax = 98500, california_tax = 42300,
      oklahoma_tax = 8500, fica_tax = 18750, total_tax = 168050,
      effective_rate = 373 / 10, withheld_ytd = 145000,
      projected_liability = 168050, refund_or_owed = - 23050\<rparr>"

text \<open>
  The fourth card of the dashboard: its title, the amount it formats and its trend.
\<close>

definition dashboard_refund_title :: "TaxProjection \<Rightarrow> string" where
  "dashboard_refund_title data =
     (if refund_or_owed data \<ge> 0 then ''Projected Refund'' else ''Additional Owed'')"

definition dashboard_refund_value :: "TaxProjection \<Rightarrow> number" where
  "dashboard_refund_value data = \<bar>refund_or_owed data\<bar>"

definition dashboard_refund_trend :: "TaxProjection \<Rightarrow> string" where
  "dashboard_refund_trend data = (if refund_or_owed data \<ge> 0 then ''up'' else ''down'')"

text \<open>
  The line under the chart "Withheld vs Owed": its label and the amount it formats.
\<close>

definition chart_comparison_label :: "TaxProjection \<Rightarrow> string" where
  "chart_comparison_label data =
     (if withheld_ytd data > projected_liability data
      then ''Projected Refund: '' else ''Additional Tax Owed: '')"

definition chart_comparison_amount :: "TaxProjection \<Rightarrow> number" where
  "chart_comparison_amount data =
     (if withheld_ytd data > projected_liability data
      then withheld_ytd data - projected_liability data
      else projected_liability data - withheld_ytd data)"

text \<open>A projection whose withholding equals the liability exactly.\<close>

definition balancedProjection :: TaxProjection where
  "balancedProjection = mockProjection\<lparr>withheld_ytd := 168050, refund_or_owed := 0\<rparr>"

section \<open>RSU vesting summary\<close>

text \<open>
  \<open>RSUVestingEvent\<close> and \<open>RSUVestingScheduleSummary\<close> of the API client. Dates are ISO
  texts there; the model takes any linearly ordered type \<open>'d\<close> of dates. The field \<open>id\<close>
  is \<open>id_ev\<close> here.
\<close>

record 'd RSUVestingEvent =
  id_ev :: string
  grant_id :: string
  symbol :: string
  grant_date :: 'd
  vesting_date :: 'd
  shares_vesting :: number
  fmv_at_vest :: number
  total_value :: number

record 'd RSUVestingScheduleSummary =
  total_grants :: nat
  total_shares_granted :: number
  total_shares_vested :: number
  total_shares_pending :: number
  upcoming_vests :: "'d RSUVestingEvent list"
  past_vests :: "'d RSUVestingEvent list"

text \<open>
  Modelled from the spec: the RSU Vesting Aggregator \<open>summarize(events, now)\<close> of section
  4.6, which the endpoint behind \<open>getRSUVestingSummary\<close> computes and which is not among
  the sources. Events with \<open>vesting_date < now\<close> are past, those with
  \<open>vesting_date \<ge> now\<close> upcoming; upcoming events are ordered by vesting date ascending,
  past events descending; grants are counted by distinct \<open>grant_id\<close>; the shares granted
  are those of all events, the shares vested those of the past events, and
  \<open>total_shares_pending = total_shares_granted - total_shares_vested\<close>.
\<close>

definition summarize :: "('d::linorder) RSUVestingEvent list \<Rightarrow> 'd \<Rightarrow> 'd RSUVestingScheduleSummary" where
  "summarize events now =
     (let past = filter (\<lambda>e. vesting_date e < now) events;
          upcoming = filter (\<lambda>e. vesting_date e \<ge> now) events;
          granted = sum_list (map shares_vesting events);
          vested = sum_list (map shares_vesting past)
      in \<lparr>total_grants = length (remdups (map grant_id events)),
          total_shares_granted = granted,
          total_shares_vested = vested,
          total_shares_pending = granted - vested,
          upcoming_vests = sort_key vesting_date upcoming,
          past_vests = rev (sort_key vesting_date past)\<rparr>)"

section \<open>Tax projection\<close>

text \<open>
  The errors of the engine (section 7 of the spec) and, beside them, the failure of a
  division by zero, so that a computation that divided by zero would show it.
\<close>

datatype engine_error = InvalidInput | ConfigurationError | DivisionByZero

definition divide_checked :: "number \<Rightarrow> number \<Rightarrow> engine_error + number" where
  "divide_checked a b = (if b = 0 then Inl DivisionByZero else Inr (a / b))"

text \<open>
  Modelled from the spec: the Bracket Calculator of section 4.1, which is not among the
  sources. A table is an ascending list of (upper bound, rate), \<open>None\<close> the unbounded top
  bracket; each bracket taxes the part of the taxable income between the previous upper
  bound and its own; no bracket is skipped; negative income is rejected.
\<close>

type_synonym BracketTable = "(number option \<times> number) list"

fun bracket_tax :: "number \<Rightarrow> number \<Rightarrow> BracketTable \<Rightarrow> number" where
  "bracket_tax taxable lower [] = 0"
| "bracket_tax taxable lower ((None, rate) # rest) =
     max 0 (taxable - lower) * rate + bracket_tax taxable lower rest"
| "bracket_tax taxable lower ((Some upper, rate) # rest) =
     max 0 (min taxable upper - lower) * rate + bracket_tax taxable upper rest"

definition tax :: "number \<Rightarrow> BracketTable \<Rightarrow> number \<Rightarrow> engine_error + number" where
  "tax income table deduction =
     (if income < 0 then Inl InvalidInput
      else Inr (bracket_tax (max 0 (income - deduction)) 0 table))"

record JurisdictionConfig =
  jurisdiction_id :: string
  brackets :: BracketTable
  standard_deduction :: "number option"

text \<open>
  Modelled from the spec: the FICA Calculator of section 4.2, which is not among the
  sources.
\<close>

record FicaConfig =
  ss_rate :: number
  wage_base :: number
  medicare_rate :: number
  additional_rate :: number
  additional_threshold :: number

record FicaResult =
  social_security :: number
  medicare :: number
  additional_medicare :: number
  fica_total :: number

definition fica :: "number \<Rightarrow> FicaConfig \<Rightarrow> FicaResult" where
  "fica income config =
     (let ss = min income (wage_base config) * ss_rate config;
          med = income * medicare_rate config;
          add = max 0 (income - additional_threshold config) * additional_rate config
      in \<lparr>social_security = ss, medicare = med, additional_medicare = add,
          fica_total = ss + med + add\<rparr>)"

text \<open>
  Modelled from the spec: the Tax Projection Aggregator \<open>project\<close> of section 4.3 with
  its input and result (section 3), which the endpoint behind \<open>getProjection\<close> computes
  and which is not among the sources. Every jurisdiction is taxed on the full-year income
  estimate; \<open>total_tax\<close> is the sum of the jurisdictions' taxes and the FICA total;
  \<open>effective_rate = total_tax / gross_income\<close>, and 0 if the gross income is 0;
  \<open>refund_or_owed = withheld_ytd - total_tax\<close>. The result's fields carry the suffix
  \<open>_r\<close> where the client's \<open>TaxProjection\<close> has the name.
\<close>

record ProjectionInput =
  gross_income_ytd :: number
  withholding_ytd :: "(string \<times> number) list"
  full_year_income_estimate :: number
  jurisdictions :: "JurisdictionConfig list"
  fica_config :: FicaConfig

record ProjectionResult =
  jurisdiction_tax :: "(string \<times> number) list"
  fica_owed :: FicaResult
  total_tax_r :: number
  effective_rate_r :: number
  projected_liability_r :: number
  refund_or_owed_r :: number

fun jurisdiction_taxes ::
  "number \<Rightarrow> JurisdictionConfig list \<Rightarrow> engine_error + (string \<times> number) list" where
  "jurisdiction_taxes income [] = Inr []"
| "jurisdiction_taxes income (j # js) =
     (case tax income (brackets j)
             (case standard_deduction j of None \<Rightarrow> 0 | Some d \<Rightarrow> d) of
        Inl e \<Rightarrow> Inl e
      | Inr t \<Rightarrow>
          (case jurisdiction_taxes income js of
             Inl e \<Rightarrow> Inl e
           | Inr ts \<Rightarrow> Inr ((jurisdiction_id j, t) # ts)))"

definition project :: "ProjectionInput \<Rightarrow> engine_error + ProjectionResult" where
  "project input =
     (case jurisdiction_taxes (full_year_income_estimate input) (jurisdictions input) of
        Inl e \<Rightarrow> Inl e
      | Inr taxes \<Rightarrow>
          (let f = fica (full_year_income_estimate input) (fica_config input);
               total = sum_list (map snd taxes) + fica_total f;
               withheld = sum_list (map snd (withholding_ytd input))
           in case (if gross_income_ytd input = 0 then Inr 0
                    else divide_checked total (gross_income_ytd input)) of
                Inl e \<Rightarrow> Inl e
              | Inr rate \<Rightarrow>
                  Inr \<lparr>jurisdiction_tax = taxes, fica_owed = f, total_tax_r = total,
                       effective_rate_r = rate, projected_liability_r = total,
                       refund_or_owed_r = withheld - total\<rparr>))"

text \<open>
  A projection input on the 2025 figures of the README: the federal brackets for married
  filing jointly and the FICA rates.
\<close>

definition federal_2025 :: JurisdictionConfig where
  "federal_2025 =
     \<lparr>jurisdiction_id = ''federal'',
      brackets = [(Some 23850, 10 / 100), (Some 96950, 12 / 100), (Some 206700, 22 / 100),
                  (Some 394600, 24 / 100), (Some 501050, 32 / 100), (Some 751600, 35 / 100),
                  (None, 37 / 100)],
      standard_deduction = None\<rparr>"

definition fica_2025 :: FicaConfig where
  "fica_2025 =
     \<lparr>ss_rate = 62 / 1000, wage_base = 176100, medicare_rate = 145 / 10000,
      additional_rate = 9 / 1000, additional_threshold = 250000\<rparr>"

definition input_2025 :: ProjectionInput where
  "input_2025 =
     \<lparr>gross_income_ytd = 450000, withholding_ytd = [(''federal'', 100000), (''fica'', 20000)],
      full_year_income_estimate = 450000, jurisdictions = [federal_2025],
      fica_config = fica_2025\<rparr>"

definition result_2025 :: ProjectionResult where
  "result_2025 =
     \<lparr>jurisdiction_tax = [(''federal'', 98126)],
      fica_owed = \<lparr>social_security = 54591 / 5, medicare = 6525,
                   additional_medicare = 1800, fica_total = 96216 / 5\<rparr>,
      total_tax_r = 586846 / 5, effective_rate_r = 293423 / 1125000,
      projected_liability_r = 586846 / 5, refund_or_owed_r = 13154 / 5\<rparr>"

section \<open>401(k) optimizer\<close>







text \<open>The optimizer's result for the initial form.\<close>

definition optimized_initial :: Optimizer401kResult where
  "optimized_initial =
     \<lparr>current_contribution_percent_res = 6,
      recommended_percent = 5404997 / 990000,
      remaining_contribution_room = 2078845 / 100,
      max_contribution = 23500,
      projected_year_end_contribution = 23500,
      tax_savings = 7520\<rparr>"

section \<open>The contribution limit\<close>

lemma effectiveMax_sliderProps:
  "effectiveMax (sliderProps optimization formData) =
     (if age formData \<ge> 50 then 23500 + 7500 else 23500)"
  by (simp add: effectiveMax_def sliderProps_def maxContribution_default_def
      catchUpEligible_default_def catchUpEligible_page_def)

text \<open>
  C2. The maximum contribution is the base limit plus exactly 7,500 when the age is at
  least 50 and the base limit alone below 50. For the component this holds for every base
  limit \<open>b\<close>; on the page the base limit is 23,500, so the limit is 31,000 with catch-up and
  23,500 without, and the page's own figure agrees with the component's.
\<close>

theorem max_contribution_catch_up:
  "(age formData \<ge> 50 \<longrightarrow>
      effectiveMax (p\<lparr>maxContribution := Some b,
                      catchUpEligible := Some (catchUpEligible_page formData)\<rparr>) = b + 7500
      \<and> effectiveMax (sliderProps optimization formData) = 31000
      \<and> effectiveMax_page formData = 31000)
   \<and> (age formData < 50 \<longrightarrow>
      effectiveMax (p\<lparr>maxContribution := Some b,
                      catchUpEligible := Some (catchUpEligible_page formData)\<rparr>) = b
      \<and> effectiveMax (sliderProps optimization formData) = 23500
      \<and> effectiveMax_page formData = 23500)"
  by (simp add: sliderProps_def effectiveMax_page_def effectiveMax_def
      maxContribution_default_def catchUpEligible_default_def catchUpEligible_page_def)

theorem max_contribution_catch_up_witness:
  "age (formData_initial\<lparr>age := 50\<rparr>) \<ge> 50
   \<and> effectiveMax (sliderProps None (formData_initial\<lparr>age := 50\<rparr>)) = 31000
   \<and> effectiveMax_page (formData_initial\<lparr>age := 50\<rparr>) = 31000
   \<and> age formData_initial < 50
   \<and> effectiveMax (sliderProps None formData_initial) = 23500
   \<and> effectiveMax_page formData_initial = 23500"
  using max_contribution_catch_up
      [where formData = "formData_initial\<lparr>age := 50\<rparr>" and b = 23500 and optimization = None]
    max_contribution_catch_up
      [where formData = formData_initial and b = 23500 and optimization = None]
  by (simp add: formData_initial_def)

section \<open>The projected year-end contribution\<close>

text \<open>
  C3. The projected year-end contribution is the smaller of the maximum contribution and
  the year-to-date contribution plus the per-period salary (the annual salary over the 26
  pay periods of the year) times percent/100 times the remaining pay periods; it never
  exceeds the maximum.
\<close>

theorem projectedYearEnd_formula:
  "projectedYearEnd p percent =
     min (effectiveMax p)
         (ytdContribution p + (annualSalary p / 26) * percent / 100 * remainingPayPeriods p)
   \<and> projectedYearEnd p percent \<le> effectiveMax p"
  by (simp add: projectedYearEnd_def min.commute)

section \<open>The projection series\<close>

text \<open>The loop in closed form: point \<open>k\<close> holds \<open>projected + (k - i) * c\<close>, capped.\<close>

lemma calculateProjection_loop_closed:
  "calculateProjection_loop n eMax c i projected data =
     data @ map (\<lambda>k. \<lparr>payPeriod = k,
                        contribution = min (projected + of_int (k - i) * c) eMax,
                        max_pt = eMax\<rparr>) [i..\<lfloor>n\<rfloor>]"
proof (induction n eMax c i projected data rule: calculateProjection_loop.induct)
  case (1 n eMax c i projected data)
  show ?case
  proof (cases "of_int i \<le> n")
    case True
    then have le: "i \<le> \<lfloor>n\<rfloor>" by (simp add: le_floor_iff)
    have up: "[i..\<lfloor>n\<rfloor>] = i # [i + 1..\<lfloor>n\<rfloor>]" using le by (rule upto_rec1)
    have step: "projected + c + of_int (k - (i + 1)) * c = projected + of_int (k - i) * c"
      for k :: int
    proof -
      have "(of_int (k - i) :: rat) = of_int (k - (i + 1)) + 1" by simp
      then show ?thesis by (simp only: distrib_right mult_1 add.assoc add.commute)
    qed
    have "calculateProjection_loop n eMax c i projected data =
          calculateProjection_loop n eMax c (i + 1) (projected + c)
            (data @ [\<lparr>payPeriod = i, contribution = min projected eMax, max_pt = eMax\<rparr>])"
      by (subst calculateProjection_loop.simps) (simp only: True if_True)
    also have "\<dots> = (data @ [\<lparr>payPeriod = i, contribution = min projected eMax, max_pt = eMax\<rparr>])
          @ map (\<lambda>k. \<lparr>payPeriod = k,
                        contribution = min (projected + c + of_int (k - (i + 1)) * c) eMax,
                        max_pt = eMax\<rparr>) [i + 1..\<lfloor>n\<rfloor>]"
      by (rule "1.IH"[OF True])
    also have "\<dots> = data @ map (\<lambda>k. \<lparr>payPeriod = k,
                        contribution = min (projected + of_int (k - i) * c) eMax,
                        max_pt = eMax\<rparr>) (i # [i + 1..\<lfloor>n\<rfloor>])"
      by (simp only: step list.map append_assoc append_Cons append_Nil
            diff_self of_int_0 mult_zero_left add_0_right)
    finally show ?thesis by (simp only: up)
  next
    case False
    then have "\<not> i \<le> \<lfloor>n\<rfloor>" by (simp add: le_floor_iff)
    then have "[i..\<lfloor>n\<rfloor>] = []" by simp
    with False show ?thesis by (subst calculateProjection_loop.simps) simp
  qed
qed

lemma calculateProjection_closed:
  "calculateProjection p pct =
     map (\<lambda>k. \<lparr>payPeriod = k,
                 contribution = min (ytdContribution p
                                      + of_int k * (annualSalary p / 26 * pct / 100))
                                    (effectiveMax p),
                 max_pt = effectiveMax p\<rparr>) [0..\<lfloor>remainingPayPeriods p\<rfloor>]"
  unfolding calculateProjection_def Let_def calculateProjection_loop_closed
  by simp

lemma sorted_map_upto:
  assumes "\<And>a b. a \<le> b \<Longrightarrow> f a \<le> (f b :: number)"
  shows "sorted (map f [i..j])"
proof -
  have "sorted_wrt (\<lambda>a b. f a \<le> f b) [i..j]"
    by (rule sorted_wrt_mono_rel[of _ "(<)"]) (auto intro: assms)
  then show ?thesis by (simp add: sorted_map)
qed

lemma calculateProjection_sorted:
  assumes "0 \<le> annualSalary p" and "0 \<le> pct"
  shows "sorted (map contribution (calculateProjection p pct))"
proof -
  let ?c = "annualSalary p / 26 * pct / 100"
  have c: "0 \<le> ?c" using assms by simp
  have mono: "min (ytdContribution p + of_int a * ?c) (effectiveMax p)
              \<le> min (ytdContribution p + of_int b * ?c) (effectiveMax p)" if "a \<le> b" for a b :: int
  proof -
    have "(of_int a :: rat) \<le> of_int b" using that by simp
    then have "of_int a * ?c \<le> of_int b * ?c" using c by (rule mult_right_mono)
    then show ?thesis by (simp add: min_le_iff_disj)
  qed
  have series: "map contribution (calculateProjection p pct) =
        map (\<lambda>k. min (ytdContribution p + of_int k * ?c) (effectiveMax p))
            [0..\<lfloor>remainingPayPeriods p\<rfloor>]"
    by (simp add: calculateProjection_closed comp_def)
  have "sorted (map (\<lambda>k. min (ytdContribution p + of_int k * ?c) (effectiveMax p))
            [0..\<lfloor>remainingPayPeriods p\<rfloor>])"
    by (rule sorted_map_upto) (rule mono)
  then show ?thesis by (simp only: series)
qed

lemma calculateProjection_bounded:
  "d \<in> set (calculateProjection p pct) \<Longrightarrow> contribution d \<le> effectiveMax p"
  by (auto simp: calculateProjection_closed)

text \<open>
  When the remaining pay periods are a whole number, the last point of the series is the
  projected year-end contribution.
\<close>

lemma projectedYearEnd_last_point:
  assumes "remainingPayPeriods p = of_int n" and "0 \<le> n"
  shows "contribution (last (calculateProjection p pct)) = projectedYearEnd p pct"
proof -
  have fl: "\<lfloor>remainingPayPeriods p\<rfloor> = n" using assms(1) by simp
  have up: "[0..n] = [0..n - 1] @ [n]" using assms(2) by (simp add: upto_rec2)
  show ?thesis
    by (simp add: calculateProjection_closed fl up projectedYearEnd_def assms(1)
        mult.commute mult.left_commute)
qed

text \<open>
  C10. For a non-negative annual salary and contribution percent, the series of
  \<open>calculateProjection\<close> has one point per pay period \<open>0, 1, ...\<close> up to the number of
  remaining pay periods, its contributions are non-decreasing along the pay periods, and
  every point, like the projected year-end contribution, is at most the effective maximum.
\<close>

theorem calculateProjection_monotone_capped:
  assumes "0 \<le> annualSalary p" and "0 \<le> pct"
  shows "map payPeriod (calculateProjection p pct) = [0..\<lfloor>remainingPayPeriods p\<rfloor>]
         \<and> sorted (map contribution (calculateProjection p pct))
         \<and> (\<forall>d \<in> set (calculateProjection p pct). contribution d \<le> effectiveMax p)
         \<and> projectedYearEnd p pct \<le> effectiveMax p"
proof -
  have "map payPeriod (calculateProjection p pct) = [0..\<lfloor>remainingPayPeriods p\<rfloor>]"
    by (simp add: calculateProjection_closed comp_def)
  moreover have "sorted (map contribution (calculateProjection p pct))"
    using assms by (rule calculateProjection_sorted)
  moreover have "\<forall>d \<in> set (calculateProjection p pct). contribution d \<le> effectiveMax p"
    by (simp add: calculateProjection_bounded)
  moreover have "projectedYearEnd p pct \<le> effectiveMax p"
    by (simp add: projectedYearEnd_def)
  ultimately show ?thesis by simp
qed

theorem calculateProjection_monotone_capped_witness:
  "0 \<le> annualSalary (sliderProps None formData_initial) \<and> (0::rat) \<le> 6
   \<and> map payPeriod (calculateProjection (sliderProps None formData_initial) 6) = [0..22]
   \<and> sorted (map contribution (calculateProjection (sliderProps None formData_initial) 6))
   \<and> list_all (\<lambda>d. contribution d \<le> 23500)
         (calculateProjection (sliderProps None formData_initial) 6)
   \<and> projectedYearEnd (sliderProps None formData_initial) 6 \<le> 23500"
proof -
  have salary: "0 \<le> annualSalary (sliderProps None formData_initial)"
    by (simp add: sliderProps_def formData_initial_def)
  have pct: "(0::rat) \<le> 6" by simp
  have periods: "\<lfloor>remainingPayPeriods (sliderProps None formData_initial)\<rfloor> = 22"
    by (simp add: sliderProps_def formData_initial_def)
  have limit: "effectiveMax (sliderProps None formData_initial) = 23500"
    by (simp add: effectiveMax_sliderProps formData_initial_def)
  note series = calculateProjection_monotone_capped [OF salary pct, unfolded periods limit]
  from salary pct series show ?thesis by (simp only: list_all_iff) blast
qed

section \<open>The safe-harbor figures\<close>

lemma safeHarborCurrentYear_multiple:
  "safeHarborCurrentYear es = 4 * ((9 / 10) * totalAnnual es)"
  by (simp add: safeHarborCurrentYear_def)

text \<open>
  C1. The claim asks for the 90%-current-year figure to be 0.9 times the annual projected
  liability, the sum of the four quarterly totals. On the estimates the page shows when
  the endpoint delivers none, that sum is 75,600 and 0.9 times it is 68,040; the page computes
  272,160, four times as much. The 110% figure is 1.1 times the fixed 165,000.
\<close>

theorem safe_harbor_current_year_on_mock:
  "totalAnnual (displayEstimates None) = 75600
   \<and> (9 / 10) * totalAnnual (displayEstimates None) = 68040
   \<and> safeHarborCurrentYear (displayEstimates None) = 272160
   \<and> safeHarborPriorYear = 181500"
  by (simp add: displayEstimates_def mockEstimates_def totalAnnual_def
      safeHarborCurrentYear_def safeHarborPriorYear_def)

section \<open>The recommended percent\<close>

text \<open>
  With a positive salary and positive remaining pay periods, the slider's projected
  year-end contribution reaches the limit exactly from one percent upwards.
\<close>

lemma projectedYearEnd_reaches_max_iff:
  assumes "0 < annualSalary p" and "0 < remainingPayPeriods p"
  shows "projectedYearEnd p q = effectiveMax p \<longleftrightarrow>
         (effectiveMax p - ytdContribution p) * 2600
           / (annualSalary p * remainingPayPeriods p) \<le> q"
proof -
  let ?d = "annualSalary p * remainingPayPeriods p"
  have d: "0 < ?d" using assms by simp
  have "projectedYearEnd p q = effectiveMax p \<longleftrightarrow>
        effectiveMax p \<le> ytdContribution p
           + (annualSalary p / 26) * (q / 100) * remainingPayPeriods p"
    by (auto simp: projectedYearEnd_def min_def)
  also have "(annualSalary p / 26) * (q / 100) * remainingPayPeriods p = q * ?d / 2600"
    by simp
  also have "effectiveMax p \<le> ytdContribution p + q * ?d / 2600 \<longleftrightarrow>
             (effectiveMax p - ytdContribution p) * 2600 \<le> q * ?d"
    by (simp add: field_simps)
  also have "\<dots> \<longleftrightarrow> (effectiveMax p - ytdContribution p) * 2600 / ?d \<le> q"
    using d by (simp add: pos_divide_le_eq)
  finally show ?thesis .
qed

text \<open>
  The result the page shows while it has no answer of the optimizer carries the same
  maximum and remaining room as the optimizer's result for the initial form, and its
  percent of 13.5 reaches the limit in the slider's projection.
\<close>

lemma mockOptimization_initial:
  "max_contribution (result None formData_initial) = max_contribution optimized_initial
   \<and> remaining_contribution_room (result None formData_initial)
       = remaining_contribution_room optimized_initial
   \<and> recommended_percent (result None formData_initial) = 27 / 2
   \<and> projectedYearEnd (sliderProps None formData_initial) (27 / 2) = 23500"
  by (simp add: result_def mockOptimization_def sliderProps_def formData_initial_def
      projectedYearEnd_def effectiveMax_def maxContribution_default_def
      catchUpEligible_default_def catchUpEligible_page_def optimized_initial_def)






section \<open>The estimated tax savings\<close>

text \<open>
  C5, as the component computes it. The estimated tax savings are the projected year-end
  contribution times 0.32; the rate is a constant of the component, which has no
  property for it, so the savings never exceed 0.32 times the effective maximum.
\<close>

theorem taxSavings_fixed_rate:
  "taxSavings p percent = projectedYearEnd p percent * (32 / 100)
   \<and> taxSavings p percent \<le> effectiveMax p * (32 / 100)"
  by (simp add: taxSavings_def projectedYearEnd_def)

text \<open>
  C5 as stated fails: with an assumed marginal rate of 24 percent the savings of the
  initial form at 6 percent would be 5,640, and the component shows 7,520.
\<close>

theorem taxSavings_rate_counterexample:
  "taxSavings (sliderProps None formData_initial) 6
     \<noteq> projectedYearEnd (sliderProps None formData_initial) 6 * (24 / 100)"
  by (simp add: taxSavings_def sliderProps_def formData_initial_def
      projectedYearEnd_def effectiveMax_def maxContribution_default_def
      catchUpEligible_default_def catchUpEligible_page_def)

section \<open>Marking a quarter paid\<close>

text \<open>
  C6, as the calendar does it. \<open>handleMarkPaid\<close> calls \<open>onMarkPaid\<close> with the quarter and
  the amount, and closes the editor, exactly when the text of the amount field parses to
  a number greater than 0. When it parses to 0, to a negative number or to no number, the
  state stays as it is and nothing is called; no error is raised. The quarter is passed
  on unchecked.
\<close>

theorem handleMarkPaid_positive_only:
  "(parseFloat (paymentAmount st) = Some a \<and> 0 < a \<longrightarrow>
      handleMarkPaid parseFloat q st =
        st\<lparr>onMarkPaid_calls := onMarkPaid_calls st @ [(q, a)],
            editingQuarter := None, paymentAmount := []\<rparr>)
   \<and> (parseFloat (paymentAmount st) = None
        \<or> (parseFloat (paymentAmount st) = Some a \<and> a \<le> 0) \<longrightarrow>
      handleMarkPaid parseFloat q st = st)"
  by (auto simp: handleMarkPaid_def)

theorem handleMarkPaid_positive_only_witness:
  "parseFloat_table (paymentAmount (editing 7 ''18900'')) = Some 18900 \<and> (0::rat) < 18900
   \<and> onMarkPaid_calls (handleMarkPaid parseFloat_table 7 (editing 7 ''18900'')) = [(7, 18900)]
   \<and> editingQuarter (handleMarkPaid parseFloat_table 7 (editing 7 ''18900'')) = None
   \<and> parseFloat_table (paymentAmount (editing 2 ''-5'')) = Some (- 5) \<and> (- 5 :: rat) \<le> 0
   \<and> handleMarkPaid parseFloat_table 2 (editing 2 ''-5'') = editing 2 ''-5''"
proof -
  have p1: "parseFloat_table (paymentAmount (editing 7 ''18900'')) = Some 18900 \<and> (0::rat) < 18900"
    by (simp add: parseFloat_table_def editing_def)
  have p2: "parseFloat_table (paymentAmount (editing 2 ''-5'')) = Some (- 5) \<and> (- 5 :: rat) \<le> 0"
    by (simp add: parseFloat_table_def editing_def)
  from p1 handleMarkPaid_positive_only [of parseFloat_table "editing 7 ''18900''" 18900 7]
  have r1: "handleMarkPaid parseFloat_table 7 (editing 7 ''18900'') =
        (editing 7 ''18900'')\<lparr>onMarkPaid_calls :=
            onMarkPaid_calls (editing 7 ''18900'') @ [(7, 18900)],
          editingQuarter := None, paymentAmount := []\<rparr>"
    by blast
  from p2 handleMarkPaid_positive_only [of parseFloat_table "editing 2 ''-5''" "- 5" 2]
  have r2: "handleMarkPaid parseFloat_table 2 (editing 2 ''-5'') = editing 2 ''-5''"
    by blast
  have c1: "onMarkPaid_calls (handleMarkPaid parseFloat_table 7 (editing 7 ''18900'')) = [(7, 18900)]"
    by (subst r1) (simp add: editing_def)
  have c2: "editingQuarter (handleMarkPaid parseFloat_table 7 (editing 7 ''18900'')) = None"
    by (subst r1) simp
  from p1 p2 r2 c1 c2 show ?thesis by blast
qed

text \<open>
  C6 as stated fails: for quarter 1 and the amount 0, both within the claim's bounds, the
  handler calls nothing and leaves the editor open.
\<close>

theorem handleMarkPaid_zero_counterexample:
  "parseFloat_table ''0'' = Some 0
   \<and> handleMarkPaid parseFloat_table 1 (editing 1 ''0'') = editing 1 ''0''
   \<and> onMarkPaid_calls (handleMarkPaid parseFloat_table 1 (editing 1 ''0'')) = []"
  by (simp add: handleMarkPaid_def parseFloat_table_def editing_def)

section \<open>Refund or additional tax owed\<close>

text \<open>The dashboard card follows the sign of \<open>refund_or_owed\<close>, zero counting as a refund.\<close>

lemma dashboard_refund_sign:
  "(refund_or_owed data \<ge> 0 \<longrightarrow>
      dashboard_refund_title data = ''Projected Refund''
      \<and> dashboard_refund_value data = refund_or_owed data)
   \<and> (refund_or_owed data < 0 \<longrightarrow>
      dashboard_refund_title data = ''Additional Owed''
      \<and> dashboard_refund_value data = - refund_or_owed data)"
  by (simp add: dashboard_refund_title_def dashboard_refund_value_def)

text \<open>
  The chart recomputes the difference from the withholding and the projected liability;
  away from zero it presents it as the dashboard does.
\<close>

lemma chart_comparison_sign:
  "(withheld_ytd data - projected_liability data > 0 \<longrightarrow>
      chart_comparison_label data = ''Projected Refund: ''
      \<and> chart_comparison_amount data = withheld_ytd data - projected_liability data)
   \<and> (withheld_ytd data - projected_liability data < 0 \<longrightarrow>
      chart_comparison_label data = ''Additional Tax Owed: ''
      \<and> chart_comparison_amount data = - (withheld_ytd data - projected_liability data))"
  by (simp add: chart_comparison_label_def chart_comparison_amount_def)

text \<open>
  C7. The projection the dashboard shows when the endpoint delivers none has
  \<open>refund_or_owed = withheld_ytd - total_tax\<close>. On a projection whose withholding
  equals its total tax, \<open>refund_or_owed\<close> is
  \<open>withheld_ytd - total_tax = 0\<close>, a non-negative value. The dashboard card presents it
  as a refund of 0, as the claim says; the chart under "Withheld vs Owed", drawn from the
  same data, presents it as additional tax owed of 0.
\<close>

theorem refund_presentation_at_zero:
  "refund_or_owed mockProjection = withheld_ytd mockProjection - total_tax mockProjection
   \<and> refund_or_owed balancedProjection
     = withheld_ytd balancedProjection - total_tax balancedProjection
   \<and> refund_or_owed balancedProjection \<ge> 0
   \<and> dashboard_refund_title balancedProjection = ''Projected Refund''
   \<and> dashboard_refund_value balancedProjection = 0
   \<and> chart_comparison_label balancedProjection = ''Additional Tax Owed: ''
   \<and> chart_comparison_amount balancedProjection = 0"
  by (simp add: balancedProjection_def mockProjection_def dashboard_refund_title_def
      dashboard_refund_value_def chart_comparison_label_def chart_comparison_amount_def)

section \<open>The RSU summary invariant\<close>

lemma sum_list_insort_key:
  "sum_list (map f (insort_key k x xs)) = f x + sum_list (map f xs)"
  for f :: "'a \<Rightarrow> rat"
  by (induction xs) (simp_all add: add.left_commute)

lemma sum_list_sort_key:
  "sum_list (map f (sort_key k xs)) = sum_list (map f xs)"
  for f :: "'a \<Rightarrow> rat"
  by (induction xs) (simp_all add: sum_list_insort_key)

lemma sum_list_partition:
  "sum_list (map f (filter P xs)) + sum_list (map f (filter (\<lambda>x. \<not> P x) xs))
     = sum_list (map f xs)"
  for f :: "'a \<Rightarrow> rat"
  by (induction xs) simp_all

text \<open>
  C8. For every list of vesting events and every \<open>now\<close>, the summary's pending shares are
  the granted shares minus the vested shares, and equal the sum of \<open>shares_vesting\<close> over
  the upcoming events, which are the events with \<open>vesting_date \<ge> now\<close> in ascending order
  of vesting date.
\<close>

theorem rsu_pending_invariant:
  fixes events :: "('d::linorder) RSUVestingEvent list"
  shows "total_shares_pending (summarize events now)
           = total_shares_granted (summarize events now)
             - total_shares_vested (summarize events now)
         \<and> total_shares_pending (summarize events now)
           = sum_list (map shares_vesting (upcoming_vests (summarize events now)))
         \<and> upcoming_vests (summarize events now)
           = sort_key vesting_date (filter (\<lambda>e. now \<le> vesting_date e) events)"
proof -
  have part: "sum_list (map shares_vesting (filter (\<lambda>e. vesting_date e < now) events))
        + sum_list (map shares_vesting (filter (\<lambda>e. now \<le> vesting_date e) events))
        = sum_list (map shares_vesting events)"
    using sum_list_partition [of shares_vesting "\<lambda>e. vesting_date e < now" events]
    by (simp add: not_less)
  show ?thesis
    using part by (simp add: summarize_def Let_def sum_list_sort_key)
qed

section \<open>The effective rate\<close>

lemma jurisdiction_taxes_ok:
  "0 \<le> income \<Longrightarrow> \<exists>ts. jurisdiction_taxes income js = Inr ts"
  by (induction js) (auto simp: tax_def)

lemma jurisdiction_taxes_error:
  "jurisdiction_taxes income js = Inl e \<Longrightarrow> e = InvalidInput"
  by (induction js arbitrary: e) (auto simp: tax_def split: sum.splits if_splits)

lemma project_input_2025: "project input_2025 = Inr result_2025"
  by (simp add: project_def input_2025_def federal_2025_def fica_2025_def tax_def
      fica_def Let_def divide_checked_def result_2025_def)

text \<open>
  C9. The projection never fails with a division by zero; when it returns a result, the
  effective rate is the total tax divided by the gross income, and 0 when the gross income
  is 0; and it does return a result whenever the income estimate is not negative.
\<close>

theorem effective_rate_safe:
  "project inp \<noteq> Inl DivisionByZero
   \<and> (project inp = Inr r \<longrightarrow>
        effective_rate_r r =
          (if gross_income_ytd inp = 0 then 0 else total_tax_r r / gross_income_ytd inp))
   \<and> (0 \<le> full_year_income_estimate inp \<longrightarrow> (\<exists>r'. project inp = Inr r'))"
proof (intro conjI impI)
  show "project inp \<noteq> Inl DivisionByZero"
    by (auto simp: project_def Let_def divide_checked_def
        split: sum.splits if_splits dest: jurisdiction_taxes_error)
next
  assume "project inp = Inr r"
  then show "effective_rate_r r =
          (if gross_income_ytd inp = 0 then 0 else total_tax_r r / gross_income_ytd inp)"
    by (auto simp: project_def Let_def divide_checked_def split: sum.splits if_splits)
next
  assume "0 \<le> full_year_income_estimate inp"
  then obtain ts where
    "jurisdiction_taxes (full_year_income_estimate inp) (jurisdictions inp) = Inr ts"
    using jurisdiction_taxes_ok by blast
  then show "\<exists>r'. project inp = Inr r'"
    by (simp add: project_def Let_def divide_checked_def)
qed

theorem effective_rate_safe_witness:
  "0 \<le> full_year_income_estimate input_2025
   \<and> project input_2025 = Inr result_2025
   \<and> project input_2025 \<noteq> Inl DivisionByZero
   \<and> effective_rate_r result_2025 = total_tax_r result_2025 / 450000
   \<and> project (input_2025\<lparr>gross_income_ytd := 0\<rparr>)
       = Inr (result_2025\<lparr>effective_rate_r := 0\<rparr>)"
proof -
  have inc: "0 \<le> full_year_income_estimate input_2025"
    by (simp add: input_2025_def)
  have gross: "gross_income_ytd input_2025 = 450000"
    by (simp add: input_2025_def)
  have zero: "project (input_2025\<lparr>gross_income_ytd := 0\<rparr>)
       = Inr (result_2025\<lparr>effective_rate_r := 0\<rparr>)"
    by (simp add: project_def input_2025_def federal_2025_def fica_2025_def tax_def
        fica_def Let_def divide_checked_def result_2025_def)
  from effective_rate_safe [of input_2025 result_2025] project_input_2025 gross
  have "project input_2025 \<noteq> Inl DivisionByZero"
    and "effective_rate_r result_2025 = total_tax_r result_2025 / 450000"
    by simp_all
  with inc project_input_2025 zero show ?thesis by blast
qed

end
